theory Spec2Isabelle
  imports Complex_Main
begin

section \<open>windpowerlib: the turbine cluster model chain\<close>

text \<open>
  A shallow embedding of \<^verbatim>\<open>windpowerlib/turbine_cluster_modelchain.py\<close>: the class
  \<^verbatim>\<open>TurbineClusterModelChain\<close> with its constructor and its two methods
  \<^verbatim>\<open>assign_power_curve\<close> and \<^verbatim>\<open>run_model\<close>.

  Double-precision arithmetic is not modelled. The cells of a weather table are numbers,
  infinities or \<^verbatim>\<open>nan\<close>, and numpy's \<^verbatim>\<open>mean\<close> of them is a parameter. The series the
  resolvers return are idealised as series of reals. Calls of \<^verbatim>\<open>logging.debug\<close> are left
  out: they neither change the object nor the value returned.
\<close>

subsection \<open>Data\<close>

text \<open>A double-precision value: \<^verbatim>\<open>nan\<close>, an infinity, or the number it stands for.\<close>

datatype npfloat = NaN | PosInf | NegInf | Num real

text \<open>
  The weather table \<^verbatim>\<open>weather_df\<close>: a row index of timestamps and columns keyed by
  (variable name, height), each column holding one cell per row.
\<close>

type_synonym timestamp = nat
type_synonym series = "(timestamp \<times> real) list"

record weather =
  index :: "timestamp list"
  columns :: "((string \<times> real) \<times> npfloat list) list"

datatype error =
    ConfigurationError string
  | MissingDataError string
  | ShapeMismatchError string
  | NameNotFound string

type_synonym curve = "(real \<times> real) list"

text \<open>
  The keyword arguments of \<^verbatim>\<open>power_plant.assign_power_curve\<close> as lines 204 to 209 pass
  them.
\<close>

record aggregator_args =
  arg_wake_losses_model :: "string option"
  arg_smoothing :: bool
  arg_block_width :: real
  arg_standard_deviation_method :: string
  arg_smoothing_order :: string
  arg_turbulence_intensity :: "npfloat option"

text \<open>
  Modelled from the spec: the PowerPlant entity (wind farm or turbine cluster) is not among
  the sources. The spec has it own the turbine inventory and layout, the current power curve
  and the stored mean hub height; \<^verbatim>\<open>assign_power_curve\<close> aggregates the member turbines'
  curves and replaces the plant's curve, \<^verbatim>\<open>mean_hub_height\<close> recomputes the stored mean hub
  height from the turbine layout.
\<close>

record 't power_plant =
  turbines :: 't
  plant_power_curve :: "curve option"
  hub_height :: "real option"

text \<open>
  The options of the inherited single-turbine chain (set by the base class constructor from
  \<^verbatim>\<open>**kwargs\<close>), the cluster chain's own options (lines 146 to 150), and the object with its
  plant and its two result attributes (lines 145, 152 and 153).
\<close>

record base_options =
  wind_speed_model :: string
  temperature_model :: string
  density_model :: string
  power_output_model :: string
  density_correction :: bool
  obstacle_height :: real
  hellman_exp :: "real option"

record chain_config = base_options +
  wake_losses_model :: "string option"
  smoothing :: bool
  block_width :: real
  standard_deviation_method :: string
  smoothing_order :: string

record 't chain = chain_config +
  power_plant :: "'t power_plant"
  power_curve :: "curve option"
  power_output :: "series option"

definition config_of :: "'t chain \<Rightarrow> chain_config" where
  "config_of self =
     \<lparr>wind_speed_model = wind_speed_model self,
      temperature_model = temperature_model self,
      density_model = density_model self,
      power_output_model = power_output_model self,
      density_correction = density_correction self,
      obstacle_height = obstacle_height self,
      hellman_exp = hellman_exp self,
      wake_losses_model = wake_losses_model self,
      smoothing = smoothing self,
      block_width = block_width self,
      standard_deviation_method = standard_deviation_method self,
      smoothing_order = smoothing_order self\<rparr>"

subsection \<open>Collaborators\<close>

text \<open>
  Modelled from the spec: the code called from this file but defined elsewhere in the
  package. The numerical work of each collaborator is a parameter:
  \<^item> \<open>aggregate\<close>: what \<^verbatim>\<open>power_plant.assign_power_curve\<close> computes from the turbine
    inventory and its keyword arguments;
  \<^item> \<open>mean_hub\<close>: what \<^verbatim>\<open>power_plant.mean_hub_height\<close> computes from the turbine layout;
  \<^item> \<open>wind_speed_hub\<close>, \<open>density_hub\<close>, \<open>calculate_power_output\<close>: the inherited
    resolvers, which the spec describes as pure functions of the weather and the
    configuration (they read the plant's hub height and curve);
  \<^item> \<open>catalog\<close>: the wind efficiency curves by name, each as its efficiency query.
  Every one of them may fail with its own error.

  The last parameter is numpy's \<^verbatim>\<open>mean\<close> of a two-dimensional array, given as the list
  of its columns. It is library code: its rounding, its order of summation and what it
  makes of \<^verbatim>\<open>nan\<close>, of infinities and of an array without elements are left to it.
\<close>

record 't collaborators =
  aggregate :: "'t \<Rightarrow> aggregator_args \<Rightarrow> error + curve"
  mean_hub :: "'t \<Rightarrow> error + real"
  wind_speed_hub :: "chain_config \<Rightarrow> 't power_plant \<Rightarrow> weather \<Rightarrow> error + series"
  density_hub :: "chain_config \<Rightarrow> 't power_plant \<Rightarrow> weather \<Rightarrow> error + series"
  calculate_power_output ::
    "chain_config \<Rightarrow> 't power_plant \<Rightarrow> series \<Rightarrow> series option \<Rightarrow> error + series"
  catalog :: "string \<Rightarrow> (real \<Rightarrow> real) option"
  np_mean :: "npfloat list list \<Rightarrow> npfloat"

text \<open>
  Modelled from the spec: \<^verbatim>\<open>wake_losses.reduce_wind_speed\<close> is not among the sources. The
  spec: the lookup of the curve by name fails with NameNotFound if the name is unrecognised;
  otherwise each wind-speed sample is scaled by the curve's efficiency value at that speed.
\<close>

definition reduce_wind_speed ::
  "(string \<Rightarrow> (real \<Rightarrow> real) option) \<Rightarrow> series \<Rightarrow> string \<Rightarrow> error + series" where
  "reduce_wind_speed cat wind_speed wind_efficiency_curve_name =
     (case cat wind_efficiency_curve_name of
        None \<Rightarrow> Inl (NameNotFound wind_efficiency_curve_name)
      | Some efficiency \<Rightarrow> Inr (map (\<lambda>(t, v). (t, v * efficiency v)) wind_speed))"

subsection \<open>Calls, effects and errors\<close>

text \<open>
  A log of the calls made to collaborators, each with its arguments and its outcome. The log
  is instrumentation: no definition below reads it.
\<close>

datatype call =
    AssignPowerCurve aggregator_args "error + unit"
  | MeanHubHeight "error + unit"
  | WindSpeedHub weather "error + series"
  | DensityHub weather "error + series"
  | ReduceWindSpeed series string "error + series"
  | CalculatePowerOutput series "series option" "error + series"

text \<open>
  A method runs on the object and the log, and leaves both behind together with either the
  value it returns or the exception it raises. An exception ends the method at once; what
  was mutated before stays mutated.
\<close>

type_synonym ('t, 'a) prog = "'t chain \<times> call list \<Rightarrow> ('t chain \<times> call list) \<times> (error + 'a)"

definition returns :: "'a \<Rightarrow> ('t, 'a) prog" where
  "returns x s = (s, Inr x)"

definition and_then :: "('t, 'a) prog \<Rightarrow> ('a \<Rightarrow> ('t, 'b) prog) \<Rightarrow> ('t, 'b) prog" where
  "and_then m f s = (case m s of (s', Inl e) \<Rightarrow> (s', Inl e) | (s', Inr x) \<Rightarrow> f x s')"

definition read_self :: "('t chain \<Rightarrow> ('t, 'a) prog) \<Rightarrow> ('t, 'a) prog" where
  "read_self f s = f (fst s) s"

definition pp_assign_power_curve :: "'t collaborators \<Rightarrow> aggregator_args \<Rightarrow> ('t, unit) prog" where
  "pp_assign_power_curve E args s =
     (case s of (self, calls) \<Rightarrow>
        (case aggregate E (turbines (power_plant self)) args of
           Inl e \<Rightarrow> ((self, calls @ [AssignPowerCurve args (Inl e)]), Inl e)
         | Inr c \<Rightarrow>
             ((self\<lparr>power_plant := (power_plant self)\<lparr>plant_power_curve := Some c\<rparr>\<rparr>,
               calls @ [AssignPowerCurve args (Inr ())]), Inr ())))"

definition pp_mean_hub_height :: "'t collaborators \<Rightarrow> ('t, unit) prog" where
  "pp_mean_hub_height E s =
     (case s of (self, calls) \<Rightarrow>
        (case mean_hub E (turbines (power_plant self)) of
           Inl e \<Rightarrow> ((self, calls @ [MeanHubHeight (Inl e)]), Inl e)
         | Inr h \<Rightarrow>
             ((self\<lparr>power_plant := (power_plant self)\<lparr>hub_height := Some h\<rparr>\<rparr>,
               calls @ [MeanHubHeight (Inr ())]), Inr ())))"

definition self_wind_speed_hub :: "'t collaborators \<Rightarrow> weather \<Rightarrow> ('t, series) prog" where
  "self_wind_speed_hub E weather_df s =
     (case s of (self, calls) \<Rightarrow>
        (let r = wind_speed_hub E (config_of self) (power_plant self) weather_df
         in ((self, calls @ [WindSpeedHub weather_df r]), r)))"

definition self_density_hub :: "'t collaborators \<Rightarrow> weather \<Rightarrow> ('t, series) prog" where
  "self_density_hub E weather_df s =
     (case s of (self, calls) \<Rightarrow>
        (let r = density_hub E (config_of self) (power_plant self) weather_df
         in ((self, calls @ [DensityHub weather_df r]), r)))"

definition wake_losses_reduce_wind_speed ::
  "'t collaborators \<Rightarrow> series \<Rightarrow> string \<Rightarrow> ('t, series) prog" where
  "wake_losses_reduce_wind_speed E wind_speed name s =
     (case s of (self, calls) \<Rightarrow>
        (let r = reduce_wind_speed (catalog E) wind_speed name
         in ((self, calls @ [ReduceWindSpeed wind_speed name r]), r)))"

definition self_calculate_power_output ::
  "'t collaborators \<Rightarrow> series \<Rightarrow> series option \<Rightarrow> ('t, series) prog" where
  "self_calculate_power_output E wind_speed density s =
     (case s of (self, calls) \<Rightarrow>
        (let r = calculate_power_output E (config_of self) (power_plant self) wind_speed density
         in ((self, calls @ [CalculatePowerOutput wind_speed density r]), r)))"

definition set_power_output :: "series \<Rightarrow> ('t, unit) prog" where
  "set_power_output out s =
     (case s of (self, calls) \<Rightarrow> ((self\<lparr>power_output := Some out\<rparr>, calls), Inr ()))"

subsection \<open>The constructor (lines 139 to 153)\<close>

definition init ::
  "'t power_plant \<Rightarrow> string option \<Rightarrow> bool \<Rightarrow> real \<Rightarrow> string \<Rightarrow> string \<Rightarrow> base_options
     \<Rightarrow> 't chain" where
  "init plant wlm sm bw sdm so kwargs =
     \<lparr>wind_speed_model = wind_speed_model kwargs,
      temperature_model = temperature_model kwargs,
      density_model = density_model kwargs,
      power_output_model = power_output_model kwargs,
      density_correction = density_correction kwargs,
      obstacle_height = obstacle_height kwargs,
      hellman_exp = hellman_exp kwargs,
      wake_losses_model = wlm,
      smoothing = sm,
      block_width = bw,
      standard_deviation_method = sdm,
      smoothing_order = so,
      power_plant = plant,
      power_curve = None,
      power_output = None\<rparr>"

text \<open>The constructor with the defaults of its signature.\<close>

definition init_default :: "'t power_plant \<Rightarrow> base_options \<Rightarrow> 't chain" where
  "init_default plant kwargs =
     init plant (Some ''dena_mean'') False (1 / 2) ''turbulence_intensity''
       ''wind_farm_power_curves'' kwargs"

subsection \<open>assign_power_curve (lines 155 to 217)\<close>

text \<open>
  \<^verbatim>\<open>weather_df.columns.get_level_values(0)\<close>: the variable name of every column.
  \<^verbatim>\<open>weather_df['turbulence_intensity'].values\<close>: the array of all columns with that variable
  name, whatever their height, over all rows. Lines 186 to 189 take numpy's \<^verbatim>\<open>mean\<close> of the
  whole array if there is such a column, and \<^verbatim>\<open>None\<close> otherwise.
\<close>

definition get_level_values_0 :: "weather \<Rightarrow> string list" where
  "get_level_values_0 weather_df = map (\<lambda>c. fst (fst c)) (columns weather_df)"

definition column_values :: "weather \<Rightarrow> string \<Rightarrow> npfloat list list" where
  "column_values weather_df name =
     map snd (filter (\<lambda>c. fst (fst c) = name) (columns weather_df))"

definition turbulence_intensity_of :: "'t collaborators \<Rightarrow> weather \<Rightarrow> npfloat option" where
  "turbulence_intensity_of E weather_df =
     (if ''turbulence_intensity'' \<in> set (get_level_values_0 weather_df)
      then Some (np_mean E (column_values weather_df ''turbulence_intensity''))
      else None)"

definition assign_power_curve :: "'t collaborators \<Rightarrow> weather \<Rightarrow> ('t, unit) prog" where
  "assign_power_curve E weather_df =
     read_self (\<lambda>self.
       let turbulence_intensity = turbulence_intensity_of E weather_df;
           wake_losses_model_to_power_curve =
             (if wake_losses_model self = Some ''power_efficiency_curve'' \<or>
                 wake_losses_model self = Some ''constant_efficiency'' \<or>
                 wake_losses_model self = None
              then wake_losses_model self
              else None)
       in pp_assign_power_curve E
            \<lparr>arg_wake_losses_model = wake_losses_model_to_power_curve,
             arg_smoothing = smoothing self,
             arg_block_width = block_width self,
             arg_standard_deviation_method = standard_deviation_method self,
             arg_smoothing_order = smoothing_order self,
             arg_turbulence_intensity = turbulence_intensity\<rparr>)"

subsection \<open>run_model (lines 219 to 278)\<close>

text \<open>
  Lines 266 to 268: the density at hub height, or \<^verbatim>\<open>None\<close> without calling the resolver
  when the plain power curve is used without density correction.
\<close>

definition resolve_density :: "'t collaborators \<Rightarrow> weather \<Rightarrow> ('t, series option) prog" where
  "resolve_density E weather_df =
     read_self (\<lambda>self.
       if power_output_model self = ''power_curve'' \<and> density_correction self = False
       then returns None
       else and_then (self_density_hub E weather_df) (\<lambda>d. returns (Some d)))"

text \<open>
  Lines 269 to 275: the wind speed is reduced with the wind efficiency curve named by
  \<^verbatim>\<open>wake_losses_model\<close> unless that is one of the two curve-side models or \<^verbatim>\<open>None\<close>.
\<close>

definition reduce_if_named_curve :: "'t collaborators \<Rightarrow> series \<Rightarrow> ('t, series) prog" where
  "reduce_if_named_curve E wind_speed =
     read_self (\<lambda>self.
       if wake_losses_model self \<noteq> Some ''power_efficiency_curve'' \<and>
          wake_losses_model self \<noteq> Some ''constant_efficiency'' \<and>
          wake_losses_model self \<noteq> None
       then wake_losses_reduce_wind_speed E wind_speed (the (wake_losses_model self))
       else returns wind_speed)"

definition run_model :: "'t collaborators \<Rightarrow> weather \<Rightarrow> ('t, unit) prog" where
  "run_model E weather_df =
     and_then (assign_power_curve E weather_df) (\<lambda>_.
     and_then (pp_mean_hub_height E) (\<lambda>_.
     and_then (self_wind_speed_hub E weather_df) (\<lambda>wind_speed.
     and_then (resolve_density E weather_df) (\<lambda>density.
     and_then (reduce_if_named_curve E wind_speed) (\<lambda>wind_speed.
     and_then (self_calculate_power_output E wind_speed density) (\<lambda>out.
     set_power_output out))))))"

subsection \<open>Observing a method call\<close>

text \<open>
  A method called on an object with an empty call log: the calls it made to collaborators,
  the object it leaves behind, and whether it returned or raised.
\<close>

definition calls_of :: "('t, 'a) prog \<Rightarrow> 't chain \<Rightarrow> call list" where
  "calls_of m self = snd (fst (m (self, [])))"

definition object_after :: "('t, 'a) prog \<Rightarrow> 't chain \<Rightarrow> 't chain" where
  "object_after m self = fst (fst (m (self, [])))"

definition outcome :: "('t, 'a) prog \<Rightarrow> 't chain \<Rightarrow> error + 'a" where
  "outcome m self = snd (m (self, []))"

text \<open>
  A caller that invokes the two methods one after the other on the same object, going on
  after an exception with the object as the failed call left it.
\<close>

datatype method_call = Call_assign_power_curve weather | Call_run_model weather

fun call_methods :: "'t collaborators \<Rightarrow> method_call list \<Rightarrow> 't chain \<Rightarrow> 't chain" where
  "call_methods E [] self = self"
| "call_methods E (Call_assign_power_curve w # ms) self =
     call_methods E ms (object_after (assign_power_curve E w) self)"
| "call_methods E (Call_run_model w # ms) self =
     call_methods E ms (object_after (run_model E w) self)"

subsection \<open>Named parts of the two methods\<close>

text \<open>
  The keyword arguments that lines 186 to 209 build, the condition of lines 266 and 267,
  the condition of lines 269 to 271, and the object after the plant stored a new curve or a
  new mean hub height.
\<close>

definition passed_args :: "'t collaborators \<Rightarrow> 't chain \<Rightarrow> weather \<Rightarrow> aggregator_args" where
  "passed_args E self weather_df =
     \<lparr>arg_wake_losses_model =
        (if wake_losses_model self = Some ''power_efficiency_curve'' \<or>
            wake_losses_model self = Some ''constant_efficiency'' \<or>
            wake_losses_model self = None
         then wake_losses_model self else None),
      arg_smoothing = smoothing self,
      arg_block_width = block_width self,
      arg_standard_deviation_method = standard_deviation_method self,
      arg_smoothing_order = smoothing_order self,
      arg_turbulence_intensity = turbulence_intensity_of E weather_df\<rparr>"

definition skips_density :: "'t chain \<Rightarrow> bool" where
  "skips_density self \<longleftrightarrow>
     power_output_model self = ''power_curve'' \<and> density_correction self = False"

definition post_hoc_path :: "'t chain \<Rightarrow> bool" where
  "post_hoc_path self \<longleftrightarrow>
     wake_losses_model self \<noteq> Some ''power_efficiency_curve'' \<and>
     wake_losses_model self \<noteq> Some ''constant_efficiency'' \<and>
     wake_losses_model self \<noteq> None"

definition with_curve :: "curve \<Rightarrow> 't chain \<Rightarrow> 't chain" where
  "with_curve c self = self\<lparr>power_plant := (power_plant self)\<lparr>plant_power_curve := Some c\<rparr>\<rparr>"

definition with_hub_height :: "real \<Rightarrow> 't chain \<Rightarrow> 't chain" where
  "with_hub_height h self = self\<lparr>power_plant := (power_plant self)\<lparr>hub_height := Some h\<rparr>\<rparr>"

definition resolved :: "curve \<Rightarrow> real \<Rightarrow> 't chain \<Rightarrow> 't chain" where
  "resolved c h self = with_hub_height h (with_curve c self)"

subsection \<open>What the spec promises of the inherited resolvers\<close>

text \<open>
  Modelled from the spec: the inherited \<^verbatim>\<open>wind_speed_hub\<close> and
  \<^verbatim>\<open>calculate_power_output\<close> are not among the sources. The spec has the first resolve
  the wind speed at hub height for the weather series it is given, sample by sample, and
  the second map the wind-speed series through the power curve to a series of powers in
  watts that are non-negative.
\<close>

definition resolves_per_timestamp :: "'t collaborators \<Rightarrow> bool" where
  "resolves_per_timestamp E \<longleftrightarrow>
     (\<forall>cfg p w v. wind_speed_hub E cfg p w = Inr v \<longrightarrow> map fst v = index w)"

definition evaluates_per_sample :: "'t collaborators \<Rightarrow> bool" where
  "evaluates_per_sample E \<longleftrightarrow>
     (\<forall>cfg p v d out. calculate_power_output E cfg p v d = Inr out \<longrightarrow>
        map fst out = map fst v \<and> (\<forall>x \<in> set (map snd out). 0 \<le> x))"

subsection \<open>A small plant, its collaborators and three weather tables\<close>

definition example_weather :: weather where
  "example_weather =
     \<lparr>index = [0, 1],
      columns = [((''wind_speed'', 10), [Num 5, Num 6]),
                 ((''wind_speed'', 80), [Num 7, Num 8]),
                 ((''roughness_length'', 0), [Num (1 / 8), Num (1 / 8)])]\<rparr>"

definition gusty_weather :: weather where
  "gusty_weather =
     \<lparr>index = [0, 1],
      columns = [((''wind_speed'', 10), [Num 5, Num 6]),
                 ((''wind_speed'', 80), [Num 7, Num 8]),
                 ((''roughness_length'', 0), [Num (1 / 8), Num (1 / 8)]),
                 ((''turbulence_intensity'', 10), [Num (1 / 4), Num (1 / 2)]),
                 ((''turbulence_intensity'', 80), [Num (1 / 8), Num (1 / 8)])]\<rparr>"

definition steady_weather :: weather where
  "steady_weather =
     \<lparr>index = [0, 1, 2],
      columns = [((''wind_speed'', 80), [Num 11, Num 12, Num 13]),
                 ((''roughness_length'', 0), [Num (1 / 8), Num (1 / 8), Num (1 / 8)]),
                 ((''temperature'', 2), [Num 280, Num 281, Num 282]),
                 ((''turbulence_intensity'', 10), [Num (1 / 4), Num (1 / 4), Num (1 / 4)]),
                 ((''turbulence_intensity'', 80), [Num (1 / 8), Num (3 / 8), Num (1 / 4)])]\<rparr>"

definition number_of :: "npfloat \<Rightarrow> real option" where
  "number_of x = (case x of Num r \<Rightarrow> Some r | _ \<Rightarrow> None)"

text \<open>
  A stand-in for numpy's \<^verbatim>\<open>mean\<close>: the exact mean of an array of numbers. The cells of the
  tables above are binary fractions whose sums, in any order, and whose quotient by their
  count are exact in double precision, so that numpy returns the same value on them; on
  other arrays the stand-in is not meant to agree with numpy.
\<close>

definition example_mean :: "npfloat list list \<Rightarrow> npfloat" where
  "example_mean block =
     (case those (map number_of (concat block)) of
        None \<Rightarrow> NaN
      | Some xs \<Rightarrow> if xs = [] then NaN else Num (sum_list xs / real (length xs)))"

definition example_wind_speed_hub :: "chain_config \<Rightarrow> unit power_plant \<Rightarrow> weather \<Rightarrow> error + series" where
  "example_wind_speed_hub cfg p w =
     (case hub_height p of
        None \<Rightarrow> Inl (MissingDataError ''hub_height'')
      | Some h \<Rightarrow>
         (case map_of (columns w) (''wind_speed'', h) of
            None \<Rightarrow> Inl (MissingDataError ''wind_speed'')
          | Some cells \<Rightarrow>
             (case those (map number_of cells) of
                None \<Rightarrow> Inl (MissingDataError ''wind_speed'')
              | Some xs \<Rightarrow>
                  if length xs = length (index w) then Inr (zip (index w) xs)
                  else Inl (ShapeMismatchError ''wind_speed''))))"

definition example_collaborators :: "unit collaborators" where
  "example_collaborators =
     \<lparr>aggregate = (\<lambda>t a. Inr [(0, 0), (10, 1000)]),
      mean_hub = (\<lambda>t. Inr 80),
      wind_speed_hub = example_wind_speed_hub,
      density_hub = (\<lambda>cfg p w. Inr (map (\<lambda>t. (t, 49 / 40)) (index w))),
      calculate_power_output = (\<lambda>cfg p v d. Inr (map (\<lambda>(t, x). (t, min 1000 (max 0 (100 * x)))) v)),
      catalog = (\<lambda>n. if n = ''dena_mean'' then Some (\<lambda>v. 1 / 2) else None),
      np_mean = example_mean\<rparr>"

definition example_plant :: "unit power_plant" where
  "example_plant = \<lparr>turbines = (), plant_power_curve = None, hub_height = None\<rparr>"

definition example_options :: base_options where
  "example_options =
     \<lparr>wind_speed_model = ''logarithmic'',
      temperature_model = ''linear_gradient'',
      density_model = ''barometric'',
      power_output_model = ''power_curve'',
      density_correction = False,
      obstacle_height = 0,
      hellman_exp = None\<rparr>"

definition example_chain :: "string option \<Rightarrow> unit chain" where
  "example_chain wlm =
     init example_plant wlm False (1 / 2) ''turbulence_intensity'' ''wind_farm_power_curves''
       example_options"

section \<open>Properties\<close>

subsection \<open>The two methods, stage by stage\<close>

lemma config_of_with [simp]:
  "config_of (with_curve c self) = config_of self"
  "config_of (with_hub_height h self) = config_of self"
  "config_of (resolved c h self) = config_of self"
  "config_of (self\<lparr>power_output := out\<rparr>) = config_of self"
  by (simp_all add: config_of_def with_curve_def with_hub_height_def resolved_def)

lemma resolved_fields [simp]:
  "turbines (power_plant (resolved c h self)) = turbines (power_plant self)"
  "plant_power_curve (power_plant (resolved c h self)) = Some c"
  "hub_height (power_plant (resolved c h self)) = Some h"
  "power_curve (resolved c h self) = power_curve self"
  "power_output (resolved c h self) = power_output self"
  "wake_losses_model (resolved c h self) = wake_losses_model self"
  "skips_density (resolved c h self) = skips_density self"
  "post_hoc_path (resolved c h self) = post_hoc_path self"
  by (simp_all add: resolved_def with_curve_def with_hub_height_def skips_density_def
      post_hoc_path_def)

lemma with_curve_fields [simp]:
  "turbines (power_plant (with_curve c self)) = turbines (power_plant self)"
  "plant_power_curve (power_plant (with_curve c self)) = Some c"
  "hub_height (power_plant (with_curve c self)) = hub_height (power_plant self)"
  "power_curve (with_curve c self) = power_curve self"
  "power_output (with_curve c self) = power_output self"
  by (simp_all add: with_curve_def)

lemma assign_power_curve_stage:
  "assign_power_curve E w (self, calls) =
     (case aggregate E (turbines (power_plant self)) (passed_args E self w) of
        Inl e \<Rightarrow> ((self, calls @ [AssignPowerCurve (passed_args E self w) (Inl e)]), Inl e)
      | Inr c \<Rightarrow>
          ((with_curve c self, calls @ [AssignPowerCurve (passed_args E self w) (Inr ())]), Inr ()))"
  by (simp add: assign_power_curve_def read_self_def passed_args_def Let_def
      pp_assign_power_curve_def with_curve_def split: sum.splits)

lemma plant_stage:
  "and_then (assign_power_curve E w) (\<lambda>_. and_then (pp_mean_hub_height E) (\<lambda>_. k)) (self, calls) =
     (case aggregate E (turbines (power_plant self)) (passed_args E self w) of
        Inl e \<Rightarrow> ((self, calls @ [AssignPowerCurve (passed_args E self w) (Inl e)]), Inl e)
      | Inr c \<Rightarrow>
         (case mean_hub E (turbines (power_plant self)) of
            Inl e \<Rightarrow> ((with_curve c self,
                calls @ [AssignPowerCurve (passed_args E self w) (Inr ()), MeanHubHeight (Inl e)]), Inl e)
          | Inr h \<Rightarrow> k (resolved c h self,
                calls @ [AssignPowerCurve (passed_args E self w) (Inr ()), MeanHubHeight (Inr ())])))"
  by (simp add: and_then_def assign_power_curve_stage pp_mean_hub_height_def resolved_def
      with_hub_height_def split: sum.splits)

lemma wind_speed_stage:
  "and_then (self_wind_speed_hub E w) k (self, calls) =
     (case wind_speed_hub E (config_of self) (power_plant self) w of
        Inl e \<Rightarrow> ((self, calls @ [WindSpeedHub w (Inl e)]), Inl e)
      | Inr v \<Rightarrow> k v (self, calls @ [WindSpeedHub w (Inr v)]))"
  by (simp add: and_then_def self_wind_speed_hub_def Let_def split: sum.splits)

lemma density_stage:
  "and_then (resolve_density E w) k (self, calls) =
     (if skips_density self then k None (self, calls)
      else case density_hub E (config_of self) (power_plant self) w of
        Inl e \<Rightarrow> ((self, calls @ [DensityHub w (Inl e)]), Inl e)
      | Inr d \<Rightarrow> k (Some d) (self, calls @ [DensityHub w (Inr d)]))"
  by (simp add: resolve_density_def and_then_def read_self_def returns_def self_density_hub_def
      Let_def skips_density_def split: sum.splits)

lemma reduce_stage:
  "and_then (reduce_if_named_curve E v) k (self, calls) =
     (if post_hoc_path self
      then case reduce_wind_speed (catalog E) v (the (wake_losses_model self)) of
        Inl e \<Rightarrow> ((self, calls @ [ReduceWindSpeed v (the (wake_losses_model self)) (Inl e)]), Inl e)
      | Inr v' \<Rightarrow> k v' (self, calls @ [ReduceWindSpeed v (the (wake_losses_model self)) (Inr v')])
      else k v (self, calls))"
  by (simp add: reduce_if_named_curve_def and_then_def read_self_def returns_def
      wake_losses_reduce_wind_speed_def Let_def post_hoc_path_def split: sum.splits)

lemma power_stage:
  "and_then (self_calculate_power_output E v d) (\<lambda>out. set_power_output out) (self, calls) =
     (case calculate_power_output E (config_of self) (power_plant self) v d of
        Inl e \<Rightarrow> ((self, calls @ [CalculatePowerOutput v d (Inl e)]), Inl e)
      | Inr out \<Rightarrow>
          ((self\<lparr>power_output := Some out\<rparr>, calls @ [CalculatePowerOutput v d (Inr out)]), Inr ()))"
  by (simp add: and_then_def self_calculate_power_output_def set_power_output_def Let_def
      split: sum.splits)

lemmas run_stages =
  run_model_def plant_stage wind_speed_stage density_stage reduce_stage power_stage

lemmas observers = calls_of_def object_after_def outcome_def

lemmas example_defs = example_chain_def init_def example_plant_def example_options_def
  example_collaborators_def example_wind_speed_hub_def example_weather_def gusty_weather_def
  skips_density_def post_hoc_path_def resolved_def with_curve_def with_hub_height_def
  config_of_def reduce_wind_speed_def number_of_def

subsection \<open>Wake losses taken into account by the aggregated curve\<close>

text \<open>
  Claim C1. If \<^verbatim>\<open>wake_losses_model\<close> is \<^verbatim>\<open>None\<close>, \<^verbatim>\<open>'power_efficiency_curve'\<close> or
  \<^verbatim>\<open>'constant_efficiency'\<close>, then for every weather table \<^verbatim>\<open>assign_power_curve\<close> makes one
  call of \<^verbatim>\<open>power_plant.assign_power_curve\<close>, with \<^verbatim>\<open>wake_losses_model\<close> passed on
  unchanged (also when it is called from \<^verbatim>\<open>run_model\<close>); \<^verbatim>\<open>run_model\<close> never calls
  \<^verbatim>\<open>wake_losses.reduce_wind_speed\<close>; whenever it calls \<^verbatim>\<open>calculate_power_output\<close>, the wind
  speed it passes is the series that \<^verbatim>\<open>wind_speed_hub\<close> returned; and a run that returns
  has made that call and stored its result in \<^verbatim>\<open>power_output\<close>.
\<close>

theorem embedded_path_keeps_wind_speed:
  assumes "wake_losses_model self = None \<or>
           wake_losses_model self = Some ''power_efficiency_curve'' \<or>
           wake_losses_model self = Some ''constant_efficiency''"
  shows "(\<exists>args r. calls_of (assign_power_curve E w) self = [AssignPowerCurve args r] \<and>
            arg_wake_losses_model args = wake_losses_model self) \<and>
         (\<forall>args r. AssignPowerCurve args r \<in> set (calls_of (run_model E w) self) \<longrightarrow>
            arg_wake_losses_model args = wake_losses_model self) \<and>
         (\<forall>v n r. ReduceWindSpeed v n r \<notin> set (calls_of (run_model E w) self)) \<and>
         (\<forall>v d r. CalculatePowerOutput v d r \<in> set (calls_of (run_model E w) self) \<longrightarrow>
            WindSpeedHub w (Inr v) \<in> set (calls_of (run_model E w) self)) \<and>
         (outcome (run_model E w) self = Inr () \<longrightarrow>
            (\<exists>v d out. CalculatePowerOutput v d (Inr out) \<in> set (calls_of (run_model E w) self) \<and>
               power_output (object_after (run_model E w) self) = Some out))"
proof -
  from assms have path: "\<not> post_hoc_path self"
    by (auto simp: post_hoc_path_def)
  from assms have arg: "arg_wake_losses_model (passed_args E self w) = wake_losses_model self"
    by (auto simp: passed_args_def)
  have a: "\<exists>args r. calls_of (assign_power_curve E w) self = [AssignPowerCurve args r] \<and>
            arg_wake_losses_model args = wake_losses_model self"
    using arg by (simp add: calls_of_def assign_power_curve_stage split: sum.splits)
  have b: "\<forall>args r. AssignPowerCurve args r \<in> set (calls_of (run_model E w) self) \<longrightarrow>
            arg_wake_losses_model args = wake_losses_model self"
    using arg path by (auto simp add: calls_of_def run_stages split: sum.splits)
  have c: "\<forall>v n r. ReduceWindSpeed v n r \<notin> set (calls_of (run_model E w) self)"
    using path by (simp add: calls_of_def run_stages split: sum.splits)
  have d: "\<forall>v d r. CalculatePowerOutput v d r \<in> set (calls_of (run_model E w) self) \<longrightarrow>
            WindSpeedHub w (Inr v) \<in> set (calls_of (run_model E w) self)"
    using path by (simp add: calls_of_def run_stages split: sum.splits)
  have e: "outcome (run_model E w) self = Inr () \<longrightarrow>
            (\<exists>v d out. CalculatePowerOutput v d (Inr out) \<in> set (calls_of (run_model E w) self) \<and>
               power_output (object_after (run_model E w) self) = Some out)"
    using path by (auto simp add: observers run_stages split: sum.splits)
  from a b c d e show ?thesis by blast
qed

theorem embedded_path_keeps_wind_speed_witness:
  "wake_losses_model (example_chain (Some ''constant_efficiency'')) = Some ''constant_efficiency'' \<and>
   outcome (run_model example_collaborators example_weather)
     (example_chain (Some ''constant_efficiency'')) = Inr () \<and>
   CalculatePowerOutput [(0, 7), (1, 8)] None (Inr [(0, 700), (1, 800)])
     \<in> set (calls_of (run_model example_collaborators example_weather)
         (example_chain (Some ''constant_efficiency''))) \<and>
   WindSpeedHub example_weather (Inr [(0, 7), (1, 8)])
     \<in> set (calls_of (run_model example_collaborators example_weather)
         (example_chain (Some ''constant_efficiency''))) \<and>
   (\<forall>v n r. ReduceWindSpeed v n r
     \<notin> set (calls_of (run_model example_collaborators example_weather)
         (example_chain (Some ''constant_efficiency''))))"
proof -
  have wlm: "wake_losses_model (example_chain (Some ''constant_efficiency'')) =
      Some ''constant_efficiency''"
    by (simp add: example_chain_def init_def)
  then have h: "wake_losses_model (example_chain (Some ''constant_efficiency'')) = None \<or>
           wake_losses_model (example_chain (Some ''constant_efficiency'')) =
             Some ''power_efficiency_curve'' \<or>
           wake_losses_model (example_chain (Some ''constant_efficiency'')) =
             Some ''constant_efficiency''"
    by simp
  have ran: "outcome (run_model example_collaborators example_weather)
     (example_chain (Some ''constant_efficiency'')) = Inr ()"
    by (simp add: observers run_stages example_defs)
  have called: "CalculatePowerOutput [(0, 7), (1, 8)] None (Inr [(0, 700), (1, 800)])
     \<in> set (calls_of (run_model example_collaborators example_weather)
         (example_chain (Some ''constant_efficiency'')))"
    by (simp add: observers run_stages example_defs)
  from embedded_path_keeps_wind_speed [OF h, of example_collaborators example_weather]
    ran called wlm
  show ?thesis
    by blast
qed

subsection \<open>Wake losses taken into account by a named wind efficiency curve\<close>

text \<open>
  Claim C2. If \<^verbatim>\<open>wake_losses_model\<close> is any other value, the name of a wind efficiency curve,
  then for every weather table \<^verbatim>\<open>assign_power_curve\<close> passes \<^verbatim>\<open>None\<close> as the wake losses
  model to \<^verbatim>\<open>power_plant.assign_power_curve\<close> (also when it is called from \<^verbatim>\<open>run_model\<close>);
  whenever \<^verbatim>\<open>run_model\<close> calls \<^verbatim>\<open>calculate_power_output\<close>, the wind speed it passes is
  what \<^verbatim>\<open>wake_losses.reduce_wind_speed\<close> returned for that curve name on the series that
  \<^verbatim>\<open>wind_speed_hub\<close> returned: every sample multiplied by the curve's efficiency at that
  sample, the timestamps unchanged; and a run that returns has made that call and stored its
  result in \<^verbatim>\<open>power_output\<close>.
\<close>

theorem named_curve_reduces_wind_speed:
  assumes "wake_losses_model self = Some name"
    and "name \<noteq> ''power_efficiency_curve''"
    and "name \<noteq> ''constant_efficiency''"
  shows "(\<exists>args r. calls_of (assign_power_curve E w) self = [AssignPowerCurve args r] \<and>
            arg_wake_losses_model args = None) \<and>
         (\<forall>args r. AssignPowerCurve args r \<in> set (calls_of (run_model E w) self) \<longrightarrow>
            arg_wake_losses_model args = None) \<and>
         (\<forall>v d r. CalculatePowerOutput v d r \<in> set (calls_of (run_model E w) self) \<longrightarrow>
            (\<exists>u efficiency.
               WindSpeedHub w (Inr u) \<in> set (calls_of (run_model E w) self) \<and>
               ReduceWindSpeed u name (Inr v) \<in> set (calls_of (run_model E w) self) \<and>
               catalog E name = Some efficiency \<and>
               v = map (\<lambda>(t, x). (t, x * efficiency x)) u)) \<and>
         (outcome (run_model E w) self = Inr () \<longrightarrow>
            (\<exists>v d out. CalculatePowerOutput v d (Inr out) \<in> set (calls_of (run_model E w) self) \<and>
               power_output (object_after (run_model E w) self) = Some out))"
proof -
  from assms have path: "post_hoc_path self"
    by (simp add: post_hoc_path_def)
  from assms have arg: "arg_wake_losses_model (passed_args E self w) = None"
    by (simp add: passed_args_def)
  from assms have name: "the (wake_losses_model self) = name"
    by simp
  have reduced: "reduce_wind_speed (catalog E) u name = Inr v \<Longrightarrow>
      \<exists>efficiency. catalog E name = Some efficiency \<and> v = map (\<lambda>(t, x). (t, x * efficiency x)) u"
    for u v
    by (auto simp: reduce_wind_speed_def split: option.splits)
  have a: "\<exists>args r. calls_of (assign_power_curve E w) self = [AssignPowerCurve args r] \<and>
            arg_wake_losses_model args = None"
    using arg by (simp add: calls_of_def assign_power_curve_stage split: sum.splits)
  have b: "\<forall>args r. AssignPowerCurve args r \<in> set (calls_of (run_model E w) self) \<longrightarrow>
            arg_wake_losses_model args = None"
    using arg path by (auto simp add: calls_of_def run_stages split: sum.splits)
  have c: "\<forall>v d r. CalculatePowerOutput v d r \<in> set (calls_of (run_model E w) self) \<longrightarrow>
            (\<exists>u efficiency.
               WindSpeedHub w (Inr u) \<in> set (calls_of (run_model E w) self) \<and>
               ReduceWindSpeed u name (Inr v) \<in> set (calls_of (run_model E w) self) \<and>
               catalog E name = Some efficiency \<and>
               v = map (\<lambda>(t, x). (t, x * efficiency x)) u)"
    using path name reduced by (auto simp add: calls_of_def run_stages split: sum.splits)
  have e: "outcome (run_model E w) self = Inr () \<longrightarrow>
            (\<exists>v d out. CalculatePowerOutput v d (Inr out) \<in> set (calls_of (run_model E w) self) \<and>
               power_output (object_after (run_model E w) self) = Some out)"
    using path by (auto simp add: observers run_stages split: sum.splits)
  from a b c e show ?thesis by blast
qed

theorem named_curve_reduces_wind_speed_witness:
  "wake_losses_model (example_chain (Some ''dena_mean'')) = Some ''dena_mean'' \<and>
   outcome (run_model example_collaborators example_weather)
     (example_chain (Some ''dena_mean'')) = Inr () \<and>
   CalculatePowerOutput [(0, 7 / 2), (1, 4)] None (Inr [(0, 350), (1, 400)])
     \<in> set (calls_of (run_model example_collaborators example_weather)
         (example_chain (Some ''dena_mean''))) \<and>
   (\<exists>u efficiency.
      WindSpeedHub example_weather (Inr u)
        \<in> set (calls_of (run_model example_collaborators example_weather)
            (example_chain (Some ''dena_mean''))) \<and>
      ReduceWindSpeed u ''dena_mean'' (Inr [(0, 7 / 2), (1, 4)])
        \<in> set (calls_of (run_model example_collaborators example_weather)
            (example_chain (Some ''dena_mean''))) \<and>
      catalog example_collaborators ''dena_mean'' = Some efficiency \<and>
      [(0, 7 / 2), (1, 4)] = map (\<lambda>(t, x). (t, x * efficiency x)) u)"
proof -
  have wlm: "wake_losses_model (example_chain (Some ''dena_mean'')) = Some ''dena_mean''"
    by (simp add: example_chain_def init_def)
  have ne: "''dena_mean'' \<noteq> ''power_efficiency_curve''" "''dena_mean'' \<noteq> ''constant_efficiency''"
    by simp_all
  have ran: "outcome (run_model example_collaborators example_weather)
     (example_chain (Some ''dena_mean'')) = Inr ()"
    by (simp add: observers run_stages example_defs)
  have called: "CalculatePowerOutput [(0, 7 / 2), (1, 4)] None (Inr [(0, 350), (1, 400)])
     \<in> set (calls_of (run_model example_collaborators example_weather)
         (example_chain (Some ''dena_mean'')))"
    by (simp add: observers run_stages example_defs)
  note named_curve_reduces_wind_speed [OF wlm ne, of example_collaborators example_weather,
      THEN conjunct2, THEN conjunct2, THEN conjunct1, rule_format, OF called]
  with wlm ran called show ?thesis
    by (intro conjI)
qed

subsection \<open>The turbulence intensity handed to the aggregator\<close>

text \<open>
  Claim C3. \<^verbatim>\<open>assign_power_curve\<close> makes exactly one call of
  \<^verbatim>\<open>power_plant.assign_power_curve\<close> and raises only what that call raises. If no column of
  the weather table has the variable name \<^verbatim>\<open>turbulence_intensity\<close>, the argument
  \<^verbatim>\<open>turbulence_intensity\<close> of the call is \<^verbatim>\<open>None\<close>; if some column has it, the argument is
  numpy's \<^verbatim>\<open>mean\<close> of the array made of every column with that variable name, at whatever
  height, each with all its rows.
\<close>

theorem turbulence_intensity_passed_or_absent:
  "\<exists>args r.
     calls_of (assign_power_curve E w) self = [AssignPowerCurve args r] \<and>
     outcome (assign_power_curve E w) self = r \<and>
     (r = Inr () \<longleftrightarrow> (\<exists>c. aggregate E (turbines (power_plant self)) args = Inr c)) \<and>
     (''turbulence_intensity'' \<notin> fst ` fst ` set (columns w) \<longrightarrow>
        arg_turbulence_intensity args = None) \<and>
     (''turbulence_intensity'' \<in> fst ` fst ` set (columns w) \<longrightarrow>
        arg_turbulence_intensity args =
          Some (np_mean E
            (map snd (filter (\<lambda>c. fst (fst c) = ''turbulence_intensity'') (columns w)))))"
proof -
  have ti: "arg_turbulence_intensity (passed_args E self w) =
      (if ''turbulence_intensity'' \<in> fst ` fst ` set (columns w)
       then Some (np_mean E
         (map snd (filter (\<lambda>c. fst (fst c) = ''turbulence_intensity'') (columns w))))
       else None)"
    by (simp add: passed_args_def turbulence_intensity_of_def get_level_values_0_def
        column_values_def image_image)
  show ?thesis
  proof (cases "aggregate E (turbines (power_plant self)) (passed_args E self w)")
    case (Inl e)
    with ti show ?thesis
      by (intro exI [of _ "passed_args E self w"] exI [of _ "Inl e"])
        (simp add: observers assign_power_curve_stage)
  next
    case (Inr c)
    with ti show ?thesis
      by (intro exI [of _ "passed_args E self w"] exI [of _ "Inr ()"])
        (simp add: observers assign_power_curve_stage)
  qed
qed

text \<open>
  On the table with two turbulence intensity columns, of cells 1/4, 1/2 and 1/8, 1/8, the
  argument is 1/4: the mean of all four cells, not that of the first column (3/8) and not
  the middle of the range (5/16).
\<close>

theorem turbulence_intensity_passed_or_absent_witness:
  "''turbulence_intensity'' \<notin> fst ` fst ` set (columns example_weather) \<and>
   ''turbulence_intensity'' \<in> fst ` fst ` set (columns gusty_weather) \<and>
   (\<exists>args. calls_of (assign_power_curve example_collaborators example_weather)
        (example_chain (Some ''dena_mean'')) = [AssignPowerCurve args (Inr ())] \<and>
      arg_turbulence_intensity args = None) \<and>
   (\<exists>args. calls_of (assign_power_curve example_collaborators gusty_weather)
        (example_chain (Some ''dena_mean'')) = [AssignPowerCurve args (Inr ())] \<and>
      arg_turbulence_intensity args = Some (Num (1 / 4)))"
proof -
  have absent: "''turbulence_intensity'' \<notin> fst ` fst ` set (columns example_weather)"
    by (simp add: example_weather_def)
  have present: "''turbulence_intensity'' \<in> fst ` fst ` set (columns gusty_weather)"
    by (simp add: gusty_weather_def)
  have mean: "np_mean example_collaborators
      (map snd (filter (\<lambda>c. fst (fst c) = ''turbulence_intensity'') (columns gusty_weather))) =
      Num (1 / 4)"
    by (simp add: example_collaborators_def example_mean_def number_of_def gusty_weather_def)
  have ok: "outcome (assign_power_curve example_collaborators w)
      (example_chain (Some ''dena_mean'')) = Inr ()" for w
    by (simp add: observers assign_power_curve_stage example_defs)
  from turbulence_intensity_passed_or_absent
    [of example_collaborators example_weather "example_chain (Some ''dena_mean'')"]
    absent ok
  have one: "\<exists>args. calls_of (assign_power_curve example_collaborators example_weather)
        (example_chain (Some ''dena_mean'')) = [AssignPowerCurve args (Inr ())] \<and>
      arg_turbulence_intensity args = None"
    by metis
  from turbulence_intensity_passed_or_absent
    [of example_collaborators gusty_weather "example_chain (Some ''dena_mean'')"]
    present ok mean
  have two: "\<exists>args. calls_of (assign_power_curve example_collaborators gusty_weather)
        (example_chain (Some ''dena_mean'')) = [AssignPowerCurve args (Inr ())] \<and>
      arg_turbulence_intensity args = Some (Num (1 / 4))"
    by metis
  from absent present one two show ?thesis by blast
qed

subsection \<open>When the density at hub height is resolved\<close>




subsection \<open>What a run reads and what it leaves alone\<close>

lemma power_plant_resolved_cong:
  "turbines (power_plant a) = turbines (power_plant b) \<Longrightarrow>
   power_plant (resolved c h a) = power_plant (resolved c h b)"
  by (simp add: resolved_def with_curve_def with_hub_height_def)

lemma passed_args_cong:
  "config_of a = config_of b \<Longrightarrow> passed_args E a w = passed_args E b w"
  by (simp add: passed_args_def config_of_def)

lemma skips_density_cong:
  "config_of a = config_of b \<Longrightarrow> skips_density a = skips_density b"
  by (simp add: skips_density_def config_of_def)

lemma post_hoc_path_cong:
  "config_of a = config_of b \<Longrightarrow> post_hoc_path a = post_hoc_path b"
  by (simp add: post_hoc_path_def config_of_def)

lemma wake_losses_model_cong:
  "config_of a = config_of b \<Longrightarrow> wake_losses_model a = wake_losses_model b"
  by (simp add: config_of_def)

lemma run_model_reads:
  assumes cfg: "config_of a = config_of b"
    and tur: "turbines (power_plant a) = turbines (power_plant b)"
  shows "snd (run_model E w (a, calls)) = snd (run_model E w (b, calls)) \<and>
         snd (fst (run_model E w (a, calls))) = snd (fst (run_model E w (b, calls))) \<and>
         (snd (run_model E w (b, calls)) = Inr () \<longrightarrow>
            power_output (fst (fst (run_model E w (a, calls)))) =
            power_output (fst (fst (run_model E w (b, calls)))) \<and>
            power_plant (fst (fst (run_model E w (a, calls)))) =
            power_plant (fst (fst (run_model E w (b, calls)))))"
  by (simp add: run_stages passed_args_cong [OF cfg] skips_density_cong [OF cfg]
      post_hoc_path_cong [OF cfg] wake_losses_model_cong [OF cfg] cfg tur
      power_plant_resolved_cong [OF tur] split: sum.splits)

lemma run_model_frame:
  "config_of (fst (fst (run_model E w (self, calls)))) = config_of self \<and>
   turbines (power_plant (fst (fst (run_model E w (self, calls))))) = turbines (power_plant self) \<and>
   power_curve (fst (fst (run_model E w (self, calls)))) = power_curve self \<and>
   (snd (run_model E w (self, calls)) \<noteq> Inr () \<longrightarrow>
      power_output (fst (fst (run_model E w (self, calls)))) = power_output self)"
  by (simp add: run_stages split: sum.splits)

lemma assign_power_curve_frame:
  "config_of (fst (fst (assign_power_curve E w (self, calls)))) = config_of self \<and>
   turbines (power_plant (fst (fst (assign_power_curve E w (self, calls))))) =
     turbines (power_plant self) \<and>
   power_curve (fst (fst (assign_power_curve E w (self, calls)))) = power_curve self \<and>
   power_output (fst (fst (assign_power_curve E w (self, calls)))) = power_output self"
  by (simp add: assign_power_curve_stage split: sum.splits)

lemma reduce_wind_speed_keeps_index:
  "reduce_wind_speed cat v n = Inr v' \<Longrightarrow> map fst v' = map fst v"
  by (auto simp: reduce_wind_speed_def split: option.splits)

lemma run_model_returns:
  "snd (run_model E w (self, calls)) = Inr () \<longrightarrow>
   (\<exists>c h v v' d out.
     wind_speed_hub E (config_of self) (power_plant (resolved c h self)) w = Inr v \<and>
     (v' = v \<or> (\<exists>n. reduce_wind_speed (catalog E) v n = Inr v')) \<and>
     calculate_power_output E (config_of self) (power_plant (resolved c h self)) v' d = Inr out \<and>
     power_output (fst (fst (run_model E w (self, calls)))) = Some out)"
  by (simp add: run_stages split: sum.splits) blast

lemma call_methods_frame:
  "config_of (call_methods E ms self) = config_of self \<and>
   power_curve (call_methods E ms self) = power_curve self"
proof (induction ms arbitrary: self)
  case Nil
  show ?case by simp
next
  case (Cons m ms)
  show ?case
  proof (cases m)
    case (Call_assign_power_curve w)
    with Cons [of "object_after (assign_power_curve E w) self"]
      assign_power_curve_frame [of E w self "[]"]
    show ?thesis by (simp add: object_after_def)
  next
    case (Call_run_model w)
    with Cons [of "object_after (run_model E w) self"] run_model_frame [of E w self "[]"]
    show ?thesis by (simp add: object_after_def)
  qed
qed

lemma example_resolves_per_timestamp: "resolves_per_timestamp example_collaborators"
  by (auto simp add: resolves_per_timestamp_def example_collaborators_def
      example_wind_speed_hub_def split: option.splits if_splits)

lemma example_evaluates_per_sample: "evaluates_per_sample example_collaborators"
  by (auto simp add: evaluates_per_sample_def example_collaborators_def)

subsection \<open>The results of a run\<close>

text \<open>
  Claim C5. The claim has every call of \<^verbatim>\<open>run_model\<close> set both \<^verbatim>\<open>power_output\<close> and
  \<^verbatim>\<open>power_curve\<close> anew on the model chain. The class documents its attribute
  \<^verbatim>\<open>power_curve\<close> as the calculated power curve of the wind farm, and the constructor
  initialises it next to \<^verbatim>\<open>power_output\<close>, but no method assigns it. On a chain fresh
  from the constructor with its defaults, a run that returns stores \<^verbatim>\<open>power_output\<close> and
  has the plant hold the aggregated curve, and the attribute \<^verbatim>\<open>power_curve\<close> of the chain
  is still \<^verbatim>\<open>None\<close>.
\<close>

theorem run_model_leaves_power_curve_unset:
  "outcome (run_model example_collaborators example_weather)
     (init_default example_plant example_options) = Inr () \<and>
   power_output (object_after (run_model example_collaborators example_weather)
     (init_default example_plant example_options)) = Some [(0, 350), (1, 400)] \<and>
   plant_power_curve (power_plant (object_after (run_model example_collaborators example_weather)
     (init_default example_plant example_options))) = Some [(0, 0), (10, 1000)] \<and>
   power_curve (object_after (run_model example_collaborators example_weather)
     (init_default example_plant example_options)) = None"
  by (simp add: observers run_stages init_default_def example_defs)

subsection \<open>Running twice\<close>

text \<open>
  Claim C6. Calling \<^verbatim>\<open>run_model\<close> again with the same weather table, on the object as the
  first call left it, leaves the same \<^verbatim>\<open>power_output\<close> as the first call; the second call
  also makes the same calls to the collaborators and ends the same way.
\<close>


theorem run_model_twice_same_power_output:
  "power_output (object_after (run_model E w) (object_after (run_model E w) self)) =
     power_output (object_after (run_model E w) self) \<and>
   outcome (run_model E w) (object_after (run_model E w) self) = outcome (run_model E w) self \<and>
   calls_of (run_model E w) (object_after (run_model E w) self) = calls_of (run_model E w) self"
proof -
  let ?first = "object_after (run_model E w) self"
  from run_model_frame [of E w self "[]"]
  have cfg: "config_of ?first = config_of self"
    and tur: "turbines (power_plant ?first) = turbines (power_plant self)"
    and failed: "outcome (run_model E w) self \<noteq> Inr () \<Longrightarrow> power_output ?first = power_output self"
    by (simp_all add: observers)
  note reads = run_model_reads [OF cfg tur, of E w "[]"]
  from reads have out: "outcome (run_model E w) ?first = outcome (run_model E w) self"
    and calls: "calls_of (run_model E w) ?first = calls_of (run_model E w) self"
    by (simp_all add: observers)
  have "power_output (object_after (run_model E w) ?first) = power_output ?first"
  proof (cases "outcome (run_model E w) self = Inr ()")
    case True
    with reads show ?thesis by (simp add: observers)
  next
    case False
    with out have "outcome (run_model E w) ?first \<noteq> Inr ()" by simp
    with run_model_frame [of E w ?first "[]"]
    show ?thesis by (simp add: observers)
  qed
  with out calls show ?thesis by simp
qed

theorem run_model_twice_same_power_output_witness:
  "power_output (object_after (run_model example_collaborators example_weather)
     (object_after (run_model example_collaborators example_weather)
        (example_chain (Some ''dena_mean'')))) = Some [(0, 350), (1, 400)] \<and>
   power_output (object_after (run_model example_collaborators example_weather)
        (example_chain (Some ''dena_mean''))) = Some [(0, 350), (1, 400)]"
proof -
  have first: "power_output (object_after (run_model example_collaborators example_weather)
        (example_chain (Some ''dena_mean''))) = Some [(0, 350), (1, 400)]"
    by (simp add: observers run_stages example_defs)
  with run_model_twice_same_power_output
    [of example_collaborators example_weather "example_chain (Some ''dena_mean'')"]
  show ?thesis
    by simp
qed

subsection \<open>The power output series\<close>

text \<open>
  Claim C7. Let \<^verbatim>\<open>wind_speed_hub\<close> return a series over the timestamps of the weather table
  and \<^verbatim>\<open>calculate_power_output\<close> a series over the timestamps of its wind speeds with
  non-negative values. Then for every weather table on which \<^verbatim>\<open>run_model\<close> returns,
  \<^verbatim>\<open>power_output\<close> is a series whose index is the index of the weather table, entry for
  entry, and whose values are all non-negative.
\<close>


theorem power_output_aligned_and_nonnegative:
  assumes "resolves_per_timestamp E"
    and "evaluates_per_sample E"
    and "outcome (run_model E w) self = Inr ()"
  shows "\<exists>out. power_output (object_after (run_model E w) self) = Some out \<and>
           map fst out = index w \<and> (\<forall>x \<in> set (map snd out). 0 \<le> x)"
proof -
  from assms(3) have "snd (run_model E w (self, [])) = Inr ()"
    by (simp add: outcome_def)
  from run_model_returns [rule_format, OF this] obtain c h v v' d out where
    wind: "wind_speed_hub E (config_of self) (power_plant (resolved c h self)) w = Inr v"
    and reduced: "v' = v \<or> (\<exists>n. reduce_wind_speed (catalog E) v n = Inr v')"
    and power:
      "calculate_power_output E (config_of self) (power_plant (resolved c h self)) v' d = Inr out"
    and stored: "power_output (object_after (run_model E w) self) = Some out"
    unfolding object_after_def by blast
  from assms(1) wind have "map fst v = index w"
    unfolding resolves_per_timestamp_def by blast
  moreover from reduced have "map fst v' = map fst v"
    by (auto dest: reduce_wind_speed_keeps_index)
  moreover from assms(2) power have "map fst out = map fst v' \<and> (\<forall>x \<in> set (map snd out). 0 \<le> x)"
    unfolding evaluates_per_sample_def by blast
  ultimately show ?thesis
    using stored by simp
qed

theorem power_output_aligned_and_nonnegative_witness:
  "resolves_per_timestamp example_collaborators \<and>
   evaluates_per_sample example_collaborators \<and>
   outcome (run_model example_collaborators example_weather)
     (example_chain (Some ''dena_mean'')) = Inr () \<and>
   (\<exists>out. power_output (object_after (run_model example_collaborators example_weather)
        (example_chain (Some ''dena_mean''))) = Some out \<and>
      map fst out = index example_weather \<and> (\<forall>x \<in> set (map snd out). 0 \<le> x))"
proof -
  have ran: "outcome (run_model example_collaborators example_weather)
     (example_chain (Some ''dena_mean'')) = Inr ()"
    by (simp add: observers run_stages example_defs)
  from power_output_aligned_and_nonnegative
    [OF example_resolves_per_timestamp example_evaluates_per_sample ran]
    example_resolves_per_timestamp example_evaluates_per_sample ran
  show ?thesis
    by (intro conjI)
qed

subsection \<open>An unknown wind efficiency curve\<close>

text \<open>
  Claim C8. Let \<^verbatim>\<open>wake_losses_model\<close> be a string other than \<^verbatim>\<open>'power_efficiency_curve'\<close>
  and \<^verbatim>\<open>'constant_efficiency'\<close> that names no wind efficiency curve. The constructor stores
  it as it is. \<^verbatim>\<open>assign_power_curve\<close> passes \<^verbatim>\<open>None\<close> as the wake losses model to the
  aggregator and raises only what the aggregator raises. \<^verbatim>\<open>run_model\<close> never returns and
  never calls \<^verbatim>\<open>calculate_power_output\<close>; its only call of \<^verbatim>\<open>wake_losses.reduce_wind_speed\<close>
  is its last call, made with that name, and fails with the lookup error, which is what
  \<^verbatim>\<open>run_model\<close> raises; and a run in which the wind speed and, where needed, the density
  were resolved does make that call.
\<close>


theorem unknown_curve_name_fails_at_lookup:
  assumes "wake_losses_model self = Some name"
    and "name \<noteq> ''power_efficiency_curve''"
    and "name \<noteq> ''constant_efficiency''"
    and "catalog E name = None"
  shows "wake_losses_model (init plant (Some name) sm bw sdm so kwargs) = Some name \<and>
         (\<exists>args r. calls_of (assign_power_curve E w) self = [AssignPowerCurve args r] \<and>
            arg_wake_losses_model args = None \<and>
            outcome (assign_power_curve E w) self = r \<and>
            (r = Inr () \<longleftrightarrow> (\<exists>c. aggregate E (turbines (power_plant self)) args = Inr c))) \<and>
         outcome (run_model E w) self \<noteq> Inr () \<and>
         (\<forall>v d r. CalculatePowerOutput v d r \<notin> set (calls_of (run_model E w) self)) \<and>
         (\<forall>u n r. ReduceWindSpeed u n r \<in> set (calls_of (run_model E w) self) \<longrightarrow>
            n = name \<and> r = Inl (NameNotFound name) \<and>
            outcome (run_model E w) self = Inl (NameNotFound name) \<and>
            last (calls_of (run_model E w) self) = ReduceWindSpeed u n r) \<and>
         ((\<exists>u. WindSpeedHub w (Inr u) \<in> set (calls_of (run_model E w) self)) \<and>
          ((power_output_model self = ''power_curve'' \<and> density_correction self = False) \<or>
           (\<exists>d. DensityHub w (Inr d) \<in> set (calls_of (run_model E w) self))) \<longrightarrow>
            (\<exists>u. ReduceWindSpeed u name (Inl (NameNotFound name))
               \<in> set (calls_of (run_model E w) self)))"
proof -
  from assms have path: "post_hoc_path self"
    by (simp add: post_hoc_path_def)
  from assms have arg: "arg_wake_losses_model (passed_args E self w) = None"
    by (simp add: passed_args_def)
  from assms have name: "the (wake_losses_model self) = name"
    by simp
  from assms have lookup: "reduce_wind_speed (catalog E) u name = Inl (NameNotFound name)" for u
    by (simp add: reduce_wind_speed_def)
  have skip: "skips_density self \<longleftrightarrow>
      power_output_model self = ''power_curve'' \<and> density_correction self = False"
    by (simp add: skips_density_def)
  have a: "wake_losses_model (init plant (Some name) sm bw sdm so kwargs) = Some name"
    by (simp add: init_def)
  have b: "\<exists>args r. calls_of (assign_power_curve E w) self = [AssignPowerCurve args r] \<and>
            arg_wake_losses_model args = None \<and>
            outcome (assign_power_curve E w) self = r \<and>
            (r = Inr () \<longleftrightarrow> (\<exists>c. aggregate E (turbines (power_plant self)) args = Inr c))"
  proof (cases "aggregate E (turbines (power_plant self)) (passed_args E self w)")
    case (Inl e)
    with arg show ?thesis
      by (intro exI [of _ "passed_args E self w"] exI [of _ "Inl e"])
        (simp add: observers assign_power_curve_stage)
  next
    case (Inr c)
    with arg show ?thesis
      by (intro exI [of _ "passed_args E self w"] exI [of _ "Inr ()"])
        (simp add: observers assign_power_curve_stage)
  qed
  have c: "outcome (run_model E w) self \<noteq> Inr ()"
    using path name lookup by (simp add: observers run_stages split: sum.splits)
  have d: "\<forall>v d r. CalculatePowerOutput v d r \<notin> set (calls_of (run_model E w) self)"
    using path name lookup by (simp add: observers run_stages split: sum.splits)
  have e: "\<forall>u n r. ReduceWindSpeed u n r \<in> set (calls_of (run_model E w) self) \<longrightarrow>
            n = name \<and> r = Inl (NameNotFound name) \<and>
            outcome (run_model E w) self = Inl (NameNotFound name) \<and>
            last (calls_of (run_model E w) self) = ReduceWindSpeed u n r"
    using path name lookup by (simp add: observers run_stages split: sum.splits)
  have f: "(\<exists>u. WindSpeedHub w (Inr u) \<in> set (calls_of (run_model E w) self)) \<and>
          ((power_output_model self = ''power_curve'' \<and> density_correction self = False) \<or>
           (\<exists>d. DensityHub w (Inr d) \<in> set (calls_of (run_model E w) self))) \<longrightarrow>
            (\<exists>u. ReduceWindSpeed u name (Inl (NameNotFound name))
               \<in> set (calls_of (run_model E w) self))"
    unfolding skip [symmetric]
    using path name lookup by (simp add: observers run_stages split: sum.splits)
  from a b c d e f show ?thesis
    by (intro conjI)
qed

theorem unknown_curve_name_fails_at_lookup_witness:
  "wake_losses_model (example_chain (Some ''no_such_curve'')) = Some ''no_such_curve'' \<and>
   catalog example_collaborators ''no_such_curve'' = None \<and>
   outcome (assign_power_curve example_collaborators example_weather)
     (example_chain (Some ''no_such_curve'')) = Inr () \<and>
   ReduceWindSpeed [(0, 7), (1, 8)] ''no_such_curve'' (Inl (NameNotFound ''no_such_curve''))
     \<in> set (calls_of (run_model example_collaborators example_weather)
         (example_chain (Some ''no_such_curve''))) \<and>
   outcome (run_model example_collaborators example_weather)
     (example_chain (Some ''no_such_curve'')) = Inl (NameNotFound ''no_such_curve'')"
proof -
  have wlm: "wake_losses_model (example_chain (Some ''no_such_curve'')) = Some ''no_such_curve''"
    by (simp add: example_chain_def init_def)
  have ne: "''no_such_curve'' \<noteq> ''power_efficiency_curve''"
    "''no_such_curve'' \<noteq> ''constant_efficiency''"
    by simp_all
  have unknown: "catalog example_collaborators ''no_such_curve'' = None"
    by (simp add: example_collaborators_def)
  have assigned: "outcome (assign_power_curve example_collaborators example_weather)
     (example_chain (Some ''no_such_curve'')) = Inr ()"
    by (simp add: observers assign_power_curve_stage example_defs)
  have reached: "ReduceWindSpeed [(0, 7), (1, 8)] ''no_such_curve''
       (Inl (NameNotFound ''no_such_curve''))
     \<in> set (calls_of (run_model example_collaborators example_weather)
         (example_chain (Some ''no_such_curve'')))"
    by (simp add: observers run_stages example_defs)
  note unknown_curve_name_fails_at_lookup [OF wlm ne unknown,
      of example_plant False "1 / 2" "''turbulence_intensity''" "''wind_farm_power_curves''"
        example_options example_weather,
      THEN conjunct2, THEN conjunct2, THEN conjunct2, THEN conjunct2, THEN conjunct1,
      rule_format, OF reached]
  then have "outcome (run_model example_collaborators example_weather)
     (example_chain (Some ''no_such_curve'')) = Inl (NameNotFound ''no_such_curve'')"
    by (elim conjE)
  with wlm unknown assigned reached show ?thesis
    by (intro conjI)
qed

subsection \<open>The configuration is read only\<close>

text \<open>
  Claim C9. For every weather table, after \<^verbatim>\<open>assign_power_curve\<close> and after \<^verbatim>\<open>run_model\<close>,
  whether they return or raise, every configuration attribute of the model chain has the
  value it had before, and so has the attribute \<^verbatim>\<open>power_curve\<close>; \<^verbatim>\<open>assign_power_curve\<close>
  leaves \<^verbatim>\<open>power_output\<close> as it was too. After any sequence of calls of the two methods
  on a chain made by the constructor, the configuration is what the constructor was given.
\<close>


theorem configuration_never_written:
  "config_of (object_after (assign_power_curve E w) self) = config_of self \<and>
   power_curve (object_after (assign_power_curve E w) self) = power_curve self \<and>
   power_output (object_after (assign_power_curve E w) self) = power_output self \<and>
   config_of (object_after (run_model E w) self) = config_of self \<and>
   power_curve (object_after (run_model E w) self) = power_curve self \<and>
   config_of (call_methods E ms (init plant wlm sm bw sdm so kwargs)) =
     \<lparr>wind_speed_model = wind_speed_model kwargs,
      temperature_model = temperature_model kwargs,
      density_model = density_model kwargs,
      power_output_model = power_output_model kwargs,
      density_correction = density_correction kwargs,
      obstacle_height = obstacle_height kwargs,
      hellman_exp = hellman_exp kwargs,
      wake_losses_model = wlm,
      smoothing = sm,
      block_width = bw,
      standard_deviation_method = sdm,
      smoothing_order = so\<rparr>"
proof -
  have "config_of (init plant wlm sm bw sdm so kwargs) =
     \<lparr>wind_speed_model = wind_speed_model kwargs,
      temperature_model = temperature_model kwargs,
      density_model = density_model kwargs,
      power_output_model = power_output_model kwargs,
      density_correction = density_correction kwargs,
      obstacle_height = obstacle_height kwargs,
      hellman_exp = hellman_exp kwargs,
      wake_losses_model = wlm,
      smoothing = sm,
      block_width = bw,
      standard_deviation_method = sdm,
      smoothing_order = so\<rparr>"
    by (simp add: config_of_def init_def)
  with call_methods_frame [of E ms "init plant wlm sm bw sdm so kwargs"]
    assign_power_curve_frame [of E w self "[]"] run_model_frame [of E w self "[]"]
  show ?thesis
    by (simp add: object_after_def)
qed

theorem configuration_never_written_witness:
  "wake_losses_model (call_methods example_collaborators
      [Call_run_model example_weather, Call_assign_power_curve gusty_weather,
       Call_run_model steady_weather]
      (init example_plant (Some ''dena_mean'') False (1 / 2) ''turbulence_intensity''
         ''wind_farm_power_curves'' example_options)) = Some ''dena_mean'' \<and>
   block_width (call_methods example_collaborators
      [Call_run_model example_weather, Call_assign_power_curve gusty_weather,
       Call_run_model steady_weather]
      (init example_plant (Some ''dena_mean'') False (1 / 2) ''turbulence_intensity''
         ''wind_farm_power_curves'' example_options)) = 1 / 2"
proof -
  let ?obj = "call_methods example_collaborators
      [Call_run_model example_weather, Call_assign_power_curve gusty_weather,
       Call_run_model steady_weather]
      (init example_plant (Some ''dena_mean'') False (1 / 2) ''turbulence_intensity''
         ''wind_farm_power_curves'' example_options)"
  from configuration_never_written
  have "config_of ?obj =
     \<lparr>wind_speed_model = wind_speed_model example_options,
      temperature_model = temperature_model example_options,
      density_model = density_model example_options,
      power_output_model = power_output_model example_options,
      density_correction = density_correction example_options,
      obstacle_height = obstacle_height example_options,
      hellman_exp = hellman_exp example_options,
      wake_losses_model = Some ''dena_mean'',
      smoothing = False,
      block_width = 1 / 2,
      standard_deviation_method = ''turbulence_intensity'',
      smoothing_order = ''wind_farm_power_curves''\<rparr>"
    by blast
  then have "wake_losses_model (config_of ?obj) = Some ''dena_mean'' \<and>
      block_width (config_of ?obj) = 1 / 2"
    by simp
  then show ?thesis
    by (simp add: config_of_def)
qed

subsection \<open>What assign_power_curve reads of the weather\<close>

text \<open>
  Claim C10. Take two weather tables that both have no \<^verbatim>\<open>turbulence_intensity\<close> column, or
  that both have one and for which numpy's \<^verbatim>\<open>mean\<close> of the array of all turbulence
  intensity columns, over all heights and all rows, is the same value. On them
  \<^verbatim>\<open>assign_power_curve\<close> does the same: the same call of \<^verbatim>\<open>power_plant.assign_power_curve\<close>
  with the same arguments, the same outcome and the same object afterwards. Nothing else of
  the weather table has any influence.
\<close>

theorem assign_power_curve_reads_only_turbulence_intensity:
  assumes "''turbulence_intensity'' \<notin> fst ` fst ` set (columns w1) \<and>
           ''turbulence_intensity'' \<notin> fst ` fst ` set (columns w2) \<or>
           ''turbulence_intensity'' \<in> fst ` fst ` set (columns w1) \<and>
           ''turbulence_intensity'' \<in> fst ` fst ` set (columns w2) \<and>
           np_mean E (map snd (filter (\<lambda>c. fst (fst c) = ''turbulence_intensity'') (columns w1))) =
           np_mean E (map snd (filter (\<lambda>c. fst (fst c) = ''turbulence_intensity'') (columns w2)))"
  shows "assign_power_curve E w1 (self, calls) = assign_power_curve E w2 (self, calls)"
proof -
  from assms have "turbulence_intensity_of E w1 = turbulence_intensity_of E w2"
    by (auto simp add: turbulence_intensity_of_def get_level_values_0_def column_values_def
        image_image)
  then have "passed_args E self w1 = passed_args E self w2"
    by (simp add: passed_args_def)
  then show ?thesis
    by (simp add: assign_power_curve_stage split: sum.splits)
qed

text \<open>
  Two tables that differ in their index, their wind speeds and their turbulence intensity
  cells: two rows with cells 1/4, 1/2 and 1/8, 1/8, and three rows with cells 1/4, 1/4, 1/4
  and 1/8, 3/8, 1/4. The mean of the cells is 1/4 for both.
\<close>

theorem assign_power_curve_reads_only_turbulence_intensity_witness:
  "gusty_weather \<noteq> steady_weather \<and>
   np_mean example_collaborators
     (map snd (filter (\<lambda>c. fst (fst c) = ''turbulence_intensity'') (columns gusty_weather))) =
     Num (1 / 4) \<and>
   np_mean example_collaborators
     (map snd (filter (\<lambda>c. fst (fst c) = ''turbulence_intensity'') (columns steady_weather))) =
     Num (1 / 4) \<and>
   assign_power_curve example_collaborators gusty_weather (example_chain None, []) =
   assign_power_curve example_collaborators steady_weather (example_chain None, [])"
proof -
  have diff: "gusty_weather \<noteq> steady_weather"
    by (simp add: gusty_weather_def steady_weather_def)
  have gusty: "np_mean example_collaborators
     (map snd (filter (\<lambda>c. fst (fst c) = ''turbulence_intensity'') (columns gusty_weather))) =
     Num (1 / 4)"
    by (simp add: example_collaborators_def example_mean_def number_of_def gusty_weather_def)
  have steady: "np_mean example_collaborators
     (map snd (filter (\<lambda>c. fst (fst c) = ''turbulence_intensity'') (columns steady_weather))) =
     Num (1 / 4)"
    by (simp add: example_collaborators_def example_mean_def number_of_def steady_weather_def)
  have "''turbulence_intensity'' \<in> fst ` fst ` set (columns gusty_weather) \<and>
        ''turbulence_intensity'' \<in> fst ` fst ` set (columns steady_weather) \<and>
        np_mean example_collaborators
          (map snd (filter (\<lambda>c. fst (fst c) = ''turbulence_intensity'') (columns gusty_weather))) =
        np_mean example_collaborators
          (map snd (filter (\<lambda>c. fst (fst c) = ''turbulence_intensity'') (columns steady_weather)))"
    unfolding gusty steady by (simp add: gusty_weather_def steady_weather_def)
  then have "''turbulence_intensity'' \<notin> fst ` fst ` set (columns gusty_weather) \<and>
           ''turbulence_intensity'' \<notin> fst ` fst ` set (columns steady_weather) \<or>
           ''turbulence_intensity'' \<in> fst ` fst ` set (columns gusty_weather) \<and>
           ''turbulence_intensity'' \<in> fst ` fst ` set (columns steady_weather) \<and>
           np_mean example_collaborators
             (map snd (filter (\<lambda>c. fst (fst c) = ''turbulence_intensity'') (columns gusty_weather))) =
           np_mean example_collaborators
             (map snd (filter (\<lambda>c. fst (fst c) = ''turbulence_intensity'') (columns steady_weather)))"
    by (rule disjI2)
  from assign_power_curve_reads_only_turbulence_intensity [OF this] diff gusty steady
  show ?thesis
    by (intro conjI)
qed

end
